theory Spec2Isabelle
  imports Complex_Main
begin

section \<open>The SuperRare platform service\<close>

text \<open>
  A shallow embedding of \<^verbatim>\<open>src/platform/SuperRareService.ts\<close>. Every method of the
  class is a function of the same name; a rejected promise or a thrown exception is the
  \<open>Inl\<close> of a sum, \<^verbatim>\<open>undefined\<close> as a method's result is \<open>None\<close>, and the calls
  a method makes to the chain client, to \<^verbatim>\<open>fetch\<close> and to the console are kept
  in a trace beside its result.

  A \<open>char\<close> stands for a UTF-16 code unit below 256; strings holding larger code units
  are outside the development. The regular expression of the service and the hexadecimal
  digits of an address only ever accept ASCII.
\<close>

subsection \<open>Values and errors\<close>

text \<open>
  What a method can throw: the \<^verbatim>\<open>new Error(msg)\<close> of the source, the errors of the
  built-in conversions, and whatever a collaborator (chain read, fetch, body parser)
  throws.
\<close>

datatype error =
    Error string
  | TypeError
  | SyntaxError
  | RangeError
  | ReadError string
  | FetchError string
  | ParseError string

text \<open>
  The values the chain client decodes (the source types them \<^verbatim>\<open>any\<close>): undefined, a
  boolean, a Number holding an integer below \<open>2 ^ 53\<close> in magnitude (the client decodes a
  \<^verbatim>\<open>uintN\<close> of at most 48 bits to one), a bigint, a string (addresses, bytes, strings)
  or an array of such values (several outputs, array outputs).
\<close>

datatype abi_value =
    AUndefined
  | ABool bool
  | ANumber int
  | ABigInt int
  | AString string
  | AArray "abi_value list"

text \<open>A Number: the double as the rational it denotes, or an infinity.\<close>

datatype js_number = Finite rat | PlusInfinity | MinusInfinity

text \<open>
  The values of a parsed JSON document, and \<^verbatim>\<open>undefined\<close> for the property a value
  does not have. An object is the list of its properties; should a key repeat, the later
  entry stands.
\<close>

datatype json_value =
    JUndefined
  | JNull
  | JBool bool
  | JNumber js_number
  | JString string
  | JArray "json_value list"
  | JObject "(string \<times> json_value) list"

datatype abi = ERC721ABI | OwnableABI | SuperRareMarketplaceABI | SuperRareV2ABI

datatype event =
    ContractRead abi string string "abi_value list"
  | Fetch abi_value
  | ConsoleLog string

subsection \<open>Collaborators\<close>

record response =
  ok :: bool
  json :: "error + json_value"

text \<open>
  The chain client answers a read (ABI, contract address, function name, arguments) with
  the decoded result or throws; \<^verbatim>\<open>fetch\<close> answers with a response or throws.
\<close>

record publicClient =
  readContract :: "abi \<Rightarrow> string \<Rightarrow> string \<Rightarrow> abi_value list \<Rightarrow> error + abi_value"
  fetch :: "abi_value \<Rightarrow> error + response"

text \<open>
  The fields of the class: the constructor copies the two names from its configuration and
  creates the client.
\<close>

record service =
  platformName :: string
  platformLogoUrl :: string
  client :: publicClient

text \<open>The object \<open>getUIData\<close> returns, with every field it sets.\<close>

record UIData =
  platformName :: string
  platformLogoUrl :: string
  nftName :: json_value
  nftUri :: json_value
  tokenStandard :: string
  nftCreatorAddress :: "abi_value option"
  dstChainId :: js_number

subsection \<open>Sequencing of asynchronous calls\<close>

type_synonym 'a io = "(error + 'a) \<times> event list"

definition io_return :: "'a \<Rightarrow> 'a io" where
  "io_return x = (Inr x, [])"

definition io_throw :: "error \<Rightarrow> 'a io" where
  "io_throw e = (Inl e, [])"

definition io_lift :: "error + 'a \<Rightarrow> 'a io" where
  "io_lift r = (r, [])"

definition io_bind :: "'a io \<Rightarrow> ('a \<Rightarrow> 'b io) \<Rightarrow> 'b io" where
  "io_bind m f =
     (case m of
        (Inl e, t) \<Rightarrow> (Inl e, t)
      | (Inr x, t) \<Rightarrow> (case f x of (r, t') \<Rightarrow> (r, t @ t')))"

definition io_catch :: "'a io \<Rightarrow> (error \<Rightarrow> 'a io) \<Rightarrow> 'a io" where
  "io_catch m h =
     (case m of
        (Inl e, t) \<Rightarrow> (case h e of (r, t') \<Rightarrow> (r, t @ t'))
      | (Inr x, t) \<Rightarrow> (Inr x, t))"

definition read_io :: "publicClient \<Rightarrow> abi \<Rightarrow> string \<Rightarrow> string \<Rightarrow> abi_value list \<Rightarrow> abi_value io" where
  "read_io c a addr fn args = (readContract c a addr fn args, [ContractRead a addr fn args])"

definition fetch_io :: "publicClient \<Rightarrow> abi_value \<Rightarrow> response io" where
  "fetch_io c uri = (fetch c uri, [Fetch uri])"

definition console_log :: "string \<Rightarrow> unit io" where
  "console_log s = (Inr (), [ConsoleLog s])"

subsection \<open>Constants\<close>

definition SUPER_RARE_ADDRESS :: string where
  "SUPER_RARE_ADDRESS = ''0xb932a70a57673d89f4acffbe830e8ed7f75fb9e0''"

definition SUPER_RARE_MINTER_ADDRESS :: string where
  "SUPER_RARE_MINTER_ADDRESS = ''0x6D7c44773C52D396F43c2D511B81aa168E9a7a42''"

text \<open>
  Modelled from the spec: \<^verbatim>\<open>config/constants\<close>, which exports
  \<^verbatim>\<open>ZERO_ADDRESS\<close>, is not among the sources; it is the zero address, the
  20 zero bytes that stand for the native currency.
\<close>

definition ZERO_ADDRESS :: string where
  "ZERO_ADDRESS = ''0x0000000000000000000000000000000000000000''"

definition mintSignature :: string where
  "mintSignature = ''function buy(address _originContract, uint256 _tokenId, address _currencyAddress, uint256 _amount) external payable''"

subsection \<open>The address pattern\<close>

text \<open>
  \<^verbatim>\<open>sourceUrl.match(/https:\/\/superrare\.com\/(0x[a-fA-F0-9]{40})/)\<close>: the pattern
  has no alternative and no repetition of variable length, so at a given position it
  matches in one way or not at all, and \<^verbatim>\<open>match\<close> returns the match at the leftmost
  position that has one: the pair of the whole match and of group 1.
\<close>

definition isHexDigit :: "char \<Rightarrow> bool" where
  "isHexDigit c = (c \<in> set ''0123456789abcdefABCDEF'')"

definition urlPrefix :: string where
  "urlPrefix = ''https://superrare.com/''"

definition matchAt :: "string \<Rightarrow> (string \<times> string) option" where
  "matchAt s =
     (let g = take 42 (drop 22 s)
      in if take 22 s = urlPrefix \<and> length g = 42 \<and> take 2 g = ''0x''
            \<and> list_all isHexDigit (drop 2 g)
         then Some (urlPrefix @ g, g) else None)"

fun match_url :: "string \<Rightarrow> (string \<times> string) option" where
  "match_url [] = None"
| "match_url (c # cs) =
     (case matchAt (c # cs) of Some m \<Rightarrow> Some m | None \<Rightarrow> match_url cs)"

subsection \<open>getMinterAddress and getArgs\<close>

definition getMinterAddress :: "service \<Rightarrow> string \<Rightarrow> int \<Rightarrow> string option io" where
  "getMinterAddress svc contract tokenId = io_return (Some SUPER_RARE_MINTER_ADDRESS)"

definition getArgs ::
  "service \<Rightarrow> string \<Rightarrow> int \<Rightarrow> string \<Rightarrow> string \<Rightarrow> int \<Rightarrow> int \<Rightarrow> string \<Rightarrow> string
     \<Rightarrow> abi_value list io" where
  "getArgs svc contractAddress tokenId senderAddress signature price quantity
     profileOwnerAddress sourceUrl =
     (let sellAddress =
        (if sourceUrl \<noteq> [] then
           (case match_url sourceUrl of
              Some contractMatch \<Rightarrow> snd contractMatch
            | None \<Rightarrow> SUPER_RARE_ADDRESS)
         else SUPER_RARE_ADDRESS)
      in io_return [AString sellAddress, ABigInt tokenId, AString ZERO_ADDRESS, ABigInt price])"

subsection \<open>Built-in conversions\<close>

text \<open>
  Truthiness, as \<^verbatim>\<open>!x\<close> and \<^verbatim>\<open>x ? a : b\<close> test it.
\<close>

fun abi_truthy :: "abi_value \<Rightarrow> bool" where
  "abi_truthy AUndefined = False"
| "abi_truthy (ABool b) = b"
| "abi_truthy (ANumber n) = (n \<noteq> 0)"
| "abi_truthy (ABigInt n) = (n \<noteq> 0)"
| "abi_truthy (AString s) = (s \<noteq> [])"
| "abi_truthy (AArray xs) = True"

fun json_truthy :: "json_value \<Rightarrow> bool" where
  "json_truthy JUndefined = False"
| "json_truthy JNull = False"
| "json_truthy (JBool b) = b"
| "json_truthy (JNumber x) = (x \<noteq> Finite 0)"
| "json_truthy (JString s) = (s \<noteq> [])"
| "json_truthy (JArray xs) = True"
| "json_truthy (JObject kvs) = True"

text \<open>
  \<^verbatim>\<open>v.name\<close> and \<^verbatim>\<open>v.image\<close> on a parsed JSON value: a TypeError on
  \<^verbatim>\<open>null\<close> and \<^verbatim>\<open>undefined\<close>, the property of an object, and
  \<^verbatim>\<open>undefined\<close> on every other value (no prototype defines either key).
\<close>

fun json_get :: "json_value \<Rightarrow> string \<Rightarrow> error + json_value" where
  "json_get JUndefined k = Inl TypeError"
| "json_get JNull k = Inl TypeError"
| "json_get (JObject kvs) k =
     (case map_of (rev kvs) k of None \<Rightarrow> Inr JUndefined | Some v \<Rightarrow> Inr v)"
| "json_get v k = Inr JUndefined"

text \<open>
  \<^verbatim>\<open>v.length\<close> and \<^verbatim>\<open>v[i]\<close> on a decoded value. Reading a property of
  \<^verbatim>\<open>undefined\<close> throws; \<open>abi_length\<close> is only reached behind the test
  \<^verbatim>\<open>!salePrice\<close>, which \<^verbatim>\<open>undefined\<close> does not pass.
\<close>

fun abi_length :: "abi_value \<Rightarrow> nat option" where
  "abi_length (AString s) = Some (length s)"
| "abi_length (AArray xs) = Some (length xs)"
| "abi_length v = None"

fun abi_index :: "abi_value \<Rightarrow> nat \<Rightarrow> error + abi_value" where
  "abi_index AUndefined i = Inl TypeError"
| "abi_index (AString s) i = Inr (if i < length s then AString [s ! i] else AUndefined)"
| "abi_index (AArray xs) i = Inr (if i < length xs then xs ! i else AUndefined)"
| "abi_index v i = Inr AUndefined"

text \<open>\<^verbatim>\<open>String.prototype.toLowerCase\<close> on code units below 256.\<close>

definition toLowerCase_char :: "char \<Rightarrow> char" where
  "toLowerCase_char c =
     (let n = (of_char c :: nat)
      in if (65 \<le> n \<and> n \<le> 90) \<or> (192 \<le> n \<and> n \<le> 222 \<and> n \<noteq> 215)
         then char_of (n + 32) else c)"

definition toLowerCase :: "string \<Rightarrow> string" where
  "toLowerCase s = map toLowerCase_char s"

text \<open>
  \<^verbatim>\<open>BigInt(v)\<close>. A string is trimmed of white space and read as an optionally signed
  decimal literal or as an unsigned literal with prefix \<^verbatim>\<open>0x\<close>, \<^verbatim>\<open>0o\<close> or
  \<^verbatim>\<open>0b\<close>; the empty string is \<^verbatim>\<open>0n\<close>; anything else is a SyntaxError. An array
  is first turned into a string, its elements joined by commas.
\<close>

definition isWhiteSpace :: "char \<Rightarrow> bool" where
  "isWhiteSpace c = ((of_char c :: nat) \<in> {9, 10, 11, 12, 13, 32, 160})"

definition trim :: "string \<Rightarrow> string" where
  "trim s = rev (dropWhile isWhiteSpace (rev (dropWhile isWhiteSpace s)))"

definition digitValue :: "char \<Rightarrow> nat option" where
  "digitValue c =
     (let n = (of_char c :: nat)
      in if 48 \<le> n \<and> n \<le> 57 then Some (n - 48)
         else if 97 \<le> n \<and> n \<le> 102 then Some (n - 87)
         else if 65 \<le> n \<and> n \<le> 70 then Some (n - 55)
         else None)"

fun parseDigits :: "nat \<Rightarrow> nat \<Rightarrow> string \<Rightarrow> nat option" where
  "parseDigits b acc [] = Some acc"
| "parseDigits b acc (c # cs) =
     (case digitValue c of
        None \<Rightarrow> None
      | Some d \<Rightarrow> if d < b then parseDigits b (acc * b + d) cs else None)"

definition parseNat :: "nat \<Rightarrow> string \<Rightarrow> nat option" where
  "parseNat b s = (if s = [] then None else parseDigits b 0 s)"

definition StringToBigInt :: "string \<Rightarrow> int option" where
  "StringToBigInt str =
     (let t = trim str
      in if t = [] then Some 0
         else if take 2 t = ''0x'' \<or> take 2 t = ''0X'' then map_option int (parseNat 16 (drop 2 t))
         else if take 2 t = ''0o'' \<or> take 2 t = ''0O'' then map_option int (parseNat 8 (drop 2 t))
         else if take 2 t = ''0b'' \<or> take 2 t = ''0B'' then map_option int (parseNat 2 (drop 2 t))
         else if take 1 t = ''+'' then map_option int (parseNat 10 (drop 1 t))
         else if take 1 t = ''-'' then map_option (\<lambda>n. - int n) (parseNat 10 (drop 1 t))
         else map_option int (parseNat 10 t))"

fun digitsOf :: "nat \<Rightarrow> string" where
  "digitsOf n =
     (if n < 10 then [char_of (48 + n)] else digitsOf (n div 10) @ [char_of (48 + n mod 10)])"

definition intToString :: "int \<Rightarrow> string" where
  "intToString n = (if n < 0 then CHR ''-'' # digitsOf (nat (- n)) else digitsOf (nat n))"

fun join :: "string list \<Rightarrow> string" where
  "join [] = []"
| "join [x] = x"
| "join (x # y # ys) = x @ '','' @ join (y # ys)"

fun ToString :: "abi_value \<Rightarrow> string" where
  "ToString AUndefined = ''undefined''"
| "ToString (ABool b) = (if b then ''true'' else ''false'')"
| "ToString (ANumber n) = intToString n"
| "ToString (ABigInt n) = intToString n"
| "ToString (AString s) = s"
| "ToString (AArray xs) = join (map (\<lambda>x. if x = AUndefined then [] else ToString x) xs)"

definition BigInt :: "abi_value \<Rightarrow> error + int" where
  "BigInt v =
     (case v of
        AUndefined \<Rightarrow> Inl TypeError
      | ABool b \<Rightarrow> Inr (if b then 1 else 0)
      | ANumber n \<Rightarrow> Inr n
      | ABigInt n \<Rightarrow> Inr n
      | _ \<Rightarrow> (case StringToBigInt (ToString v) of None \<Rightarrow> Inl SyntaxError | Some n \<Rightarrow> Inr n))"

text \<open>
  \<^verbatim>\<open>Number(n)\<close> of a bigint: the nearest double, ties to the even significand of
  53 bits, an infinity from \<open>2 ^ 1024\<close> on.
\<close>

fun bitLength :: "nat \<Rightarrow> nat" where
  "bitLength n = (if n = 0 then 0 else Suc (bitLength (n div 2)))"

definition Number :: "int \<Rightarrow> js_number" where
  "Number n =
     (let a = nat \<bar>n\<bar>; k = bitLength a
      in if k \<le> 53 then Finite (of_int n)
         else
           (let e = k - 53; q = a div 2 ^ e; r = a mod 2 ^ e; half = 2 ^ (e - 1);
                q' = (if half < r \<or> (r = half \<and> odd q) then q + 1 else q);
                m = q' * 2 ^ e
            in if 2 ^ 1024 \<le> m then (if n < 0 then MinusInfinity else PlusInfinity)
               else Finite (of_int (sgn n * int m))))"

text \<open>The \<^verbatim>\<open>/\<close> of two bigints truncates towards zero; its divisor here is a literal.\<close>

definition bigint_div :: "int \<Rightarrow> int \<Rightarrow> int" where
  "bigint_div a b = sgn a * sgn b * (\<bar>a\<bar> div \<bar>b\<bar>)"

subsection \<open>Sale prices\<close>

text \<open>
  The record \<^verbatim>\<open>{ price: bigint; token: string; seller: string }\<close>; the two fields
  typed \<^verbatim>\<open>string\<close> hold whatever the chain read returned at their index.
\<close>

record SalePrice =
  price :: int
  token :: abi_value
  seller :: abi_value

definition getSalePrices :: "service \<Rightarrow> string \<Rightarrow> int \<Rightarrow> SalePrice option io" where
  "getSalePrices svc contractAddress nftId =
     io_bind (read_io (client svc) SuperRareMarketplaceABI SUPER_RARE_MINTER_ADDRESS
                ''tokenSalePrices'' [AString contractAddress, ABigInt nftId, AString ZERO_ADDRESS])
       (\<lambda>salePrice.
          if \<not> abi_truthy salePrice \<or> abi_length salePrice \<noteq> Some 3 then io_return None
          else
            io_bind (io_lift (abi_index salePrice 2)) (\<lambda>v2.
            io_bind (io_lift (BigInt v2)) (\<lambda>p.
            io_bind (io_lift (abi_index salePrice 0)) (\<lambda>v0.
            io_return (Some \<lparr>price = p, token = v2, seller = v0\<rparr>)))))"

definition isSaleValid :: "SalePrice option \<Rightarrow> bool" where
  "isSaleValid salePrice =
     (case salePrice of
        None \<Rightarrow> False
      | Some s \<Rightarrow> if price s = 0 then False else True)"

definition getFees :: int where
  "getFees = 3"

text \<open>
  The optional parameters \<^verbatim>\<open>unit\<close> (default \<^verbatim>\<open>1n\<close>) and
  \<^verbatim>\<open>sourceUrl\<close> are options; an empty source URL is falsy.
\<close>

definition getPrice ::
  "service \<Rightarrow> string \<Rightarrow> int \<Rightarrow> string \<Rightarrow> string \<Rightarrow> int option \<Rightarrow> string option
     \<Rightarrow> int option io" where
  "getPrice svc contractAddress nftId signature userAddress unitArg sourceUrlArg =
     (let unit = (case unitArg of None \<Rightarrow> 1 | Some u \<Rightarrow> u);
          sellAddress =
            (case sourceUrlArg of
               None \<Rightarrow> SUPER_RARE_ADDRESS
             | Some sourceUrl \<Rightarrow>
                 if sourceUrl \<noteq> [] then
                   (case match_url sourceUrl of
                      Some contractMatch \<Rightarrow> snd contractMatch
                    | None \<Rightarrow> SUPER_RARE_ADDRESS)
                 else SUPER_RARE_ADDRESS)
      in io_bind (getSalePrices svc sellAddress nftId)
           (\<lambda>salePrice.
              if \<not> isSaleValid salePrice then io_return None
              else io_return
                (Some ((bigint_div (price (the salePrice) * getFees) 100 + price (the salePrice))
                       * unit))))"

subsection \<open>getMintSignature\<close>

text \<open>
  Of an \<^verbatim>\<open>NFTExtraction\<close> the service reads the contract address and the token id;
  its chain and its reference to the platform service are left out.
\<close>

record NFTExtraction =
  contractAddress :: string
  nftId :: string

definition getMintSignature :: "service \<Rightarrow> NFTExtraction \<Rightarrow> string option io" where
  "getMintSignature svc nftDetails =
     io_bind (io_lift (BigInt (AString (nftId nftDetails)))) (\<lambda>n.
     io_bind (getSalePrices svc (contractAddress nftDetails) n) (\<lambda>salePrice.
       if \<not> isSaleValid salePrice then io_return None
       else io_return (Some mintSignature)))"

subsection \<open>getUIData\<close>

text \<open>
  The parameter \<^verbatim>\<open>dstChainId\<close> is \<open>dstChain\<close> here, the field of the result
  keeping the name. A failed \<^verbatim>\<open>owner()\<close> read is caught and logged, and
  \<^verbatim>\<open>owner\<close> stays undefined; every other failure rejects the promise.
\<close>

definition getUIData ::
  "service \<Rightarrow> string \<Rightarrow> string \<Rightarrow> int \<Rightarrow> int \<Rightarrow> string \<Rightarrow> UIData option io" where
  "getUIData svc signature contract tokenId dstChain sourceUrl =
     (let sellAddress =
        (if sourceUrl \<noteq> [] then
           (case match_url sourceUrl of
              Some contractMatch \<Rightarrow> snd contractMatch
            | None \<Rightarrow> SUPER_RARE_ADDRESS)
         else SUPER_RARE_ADDRESS)
      in
        io_bind
          (if toLowerCase sellAddress = toLowerCase SUPER_RARE_ADDRESS then
             read_io (client svc) SuperRareV2ABI sellAddress ''tokenCreator'' [ABigInt tokenId]
           else
             io_catch (read_io (client svc) OwnableABI sellAddress ''owner'' [])
               (\<lambda>e. io_bind (console_log ''Not ownable contract, nftCreatorAddress not found'')
                      (\<lambda>_. io_return AUndefined)))
          (\<lambda>owner.
        io_bind (read_io (client svc) ERC721ABI sellAddress ''tokenURI'' [ABigInt tokenId])
          (\<lambda>tokenURI.
        io_bind (fetch_io (client svc) tokenURI)
          (\<lambda>tokenData.
        if \<not> ok tokenData then io_throw (Error ''Token data not found'')
        else
        io_bind (io_lift (json tokenData))
          (\<lambda>tokenJson.
        io_bind (io_lift (json_get tokenJson ''name''))
          (\<lambda>name.
        if \<not> json_truthy name then io_throw (Error ''Collection name not found'')
        else
        io_bind (io_lift (json_get tokenJson ''image''))
          (\<lambda>image.
        if \<not> json_truthy image then io_throw (Error ''Preview asset url not found'')
        else
        io_return
          (Some \<lparr>platformName = service.platformName svc,
                 platformLogoUrl = service.platformLogoUrl svc,
                 nftName = name,
                 nftUri = image,
                 tokenStandard = ''erc721'',
                 nftCreatorAddress = (if abi_truthy owner then Some owner else None),
                 dstChainId = Number dstChain\<rparr>))))))))"

section \<open>Vocabulary of the properties\<close>

text \<open>
  An address as the pattern writes it: \<^verbatim>\<open>0x\<close> and 40 hexadecimal digits.
\<close>

definition is_address :: "string \<Rightarrow> bool" where
  "is_address a = (length a = 42 \<and> take 2 a = ''0x'' \<and> list_all isHexDigit (drop 2 a))"

text \<open>
  The selling contract a source URL stands for: group 1 of the match, the default
  contract where nothing matches (the empty URL included).
\<close>

definition resolved_address :: "string \<Rightarrow> string" where
  "resolved_address url =
     (case match_url url of Some m \<Rightarrow> snd m | None \<Rightarrow> SUPER_RARE_ADDRESS)"

text \<open>The contracts a trace reads from, in order.\<close>

fun read_address :: "event \<Rightarrow> string list" where
  "read_address (ContractRead a addr fn args) = [addr]"
| "read_address (Fetch uri) = []"
| "read_address (ConsoleLog s) = []"

definition contracts_read :: "event list \<Rightarrow> string list" where
  "contracts_read t = concat (map read_address t)"

text \<open>
  A metadata document lacks a field when it is not an object or has no property of that
  name. The metadata behind a URI is unusable when the fetch throws, the response is not
  \<^verbatim>\<open>ok\<close>, the body does not parse, or the document lacks the name or the image.
\<close>

definition lacks_field :: "json_value \<Rightarrow> string \<Rightarrow> bool" where
  "lacks_field j k = (case j of JObject kvs \<Rightarrow> k \<notin> fst ` set kvs | _ \<Rightarrow> True)"

definition metadata_unusable :: "publicClient \<Rightarrow> abi_value \<Rightarrow> bool" where
  "metadata_unusable c uri =
     (case fetch c uri of
        Inl e \<Rightarrow> True
      | Inr r \<Rightarrow> \<not> ok r \<or>
          (case json r of
             Inl e \<Rightarrow> True
           | Inr j \<Rightarrow> lacks_field j ''name'' \<or> lacks_field j ''image''))"

text \<open>
  A name or an image is empty or missing when the document lacks the field or holds the
  empty string or \<^verbatim>\<open>null\<close> in it.
\<close>

definition empty_or_missing :: "json_value \<Rightarrow> string \<Rightarrow> bool" where
  "empty_or_missing j k =
     (lacks_field j k \<or> json_get j k = Inr (JString []) \<or> json_get j k = Inr JNull)"

subsection \<open>A chain and a metadata server to run the service on\<close>

text \<open>
  The marketplace answers every \<^verbatim>\<open>tokenSalePrices\<close> with \<open>sale\<close>, no contract
  supports \<^verbatim>\<open>owner()\<close>, every token has the same URI, and the server answers
  every fetch with the document \<open>doc\<close>.
\<close>

definition example_client :: "abi_value \<Rightarrow> json_value \<Rightarrow> publicClient" where
  "example_client sale doc =
     \<lparr>readContract = (\<lambda>a addr fn args.
         if fn = ''tokenSalePrices'' then Inr sale
         else if fn = ''owner'' then Inl (ReadError ''execution reverted'')
         else if fn = ''tokenURI'' then Inr (AString ''ipfs://token'')
         else Inr (AString ''0xcreator'')),
       fetch = (\<lambda>uri. Inr \<lparr>ok = True, json = Inr doc\<rparr>)\<rparr>"

definition example_service :: "abi_value \<Rightarrow> json_value \<Rightarrow> service" where
  "example_service sale doc =
     \<lparr>service.platformName = ''SuperRare'', platformLogoUrl = ''logo.png'',
       client = example_client sale doc\<rparr>"

definition example_sale :: "int \<Rightarrow> abi_value" where
  "example_sale p = AArray [AString ''0xseller'', AString ZERO_ADDRESS, ABigInt p]"

definition example_doc :: json_value where
  "example_doc = JObject [(''name'', JString ''Sunrise''), (''image'', JString ''ipfs://image'')]"

definition example_doc_no_image :: json_value where
  "example_doc_no_image = JObject [(''name'', JString ''Sunrise'')]"

definition example_url :: string where
  "example_url = ''https://superrare.com/0x1234567890abcdefABCDEF1234567890abcdef12/sunrise-7''"

definition example_address :: string where
  "example_address = ''0x1234567890abcdefABCDEF1234567890abcdef12''"

definition plain_url :: string where
  "plain_url = ''https://superrare.com/artwork-v2/sunrise-7''"

definition example_doc_empty_fields :: json_value where
  "example_doc_empty_fields = JObject [(''name'', JArray []), (''image'', JObject [])]"

definition example_doc_empty_name :: json_value where
  "example_doc_empty_name =
     JObject [(''name'', JString []), (''image'', JString ''ipfs://image'')]"

text \<open>
  A marketplace with two sale records: token 7 of \<open>other_contract\<close> at price 0, every
  other token at price 50.
\<close>

definition other_contract :: string where
  "other_contract = ''0x1111111111111111111111111111111111111111''"

definition two_sales_client :: publicClient where
  "two_sales_client =
     \<lparr>readContract = (\<lambda>a addr fn args.
         if fn = ''tokenSalePrices'' then
           (if args = [AString other_contract, ABigInt 7, AString ZERO_ADDRESS]
            then Inr (example_sale 0) else Inr (example_sale 50))
         else Inl (ReadError ''execution reverted'')),
       fetch = (\<lambda>uri. Inl (FetchError ''unreachable''))\<rparr>"

definition two_sales_service :: service where
  "two_sales_service =
     \<lparr>service.platformName = ''SuperRare'', platformLogoUrl = ''logo.png'',
       client = two_sales_client\<rparr>"

section \<open>Lemmas\<close>

subsection \<open>The match is the leftmost segment of the pattern's shape\<close>

lemma length_urlPrefix: "length urlPrefix = 22"
  by (simp add: urlPrefix_def)

lemma matchAt_Some_iff:
  "matchAt s = Some m \<longleftrightarrow> (\<exists>a post. s = urlPrefix @ a @ post \<and> is_address a \<and> m = (urlPrefix @ a, a))"
proof
  assume h: "matchAt s = Some m"
  define g where "g = take 42 (drop 22 s)"
  from h have p: "take 22 s = urlPrefix" and a: "is_address g" and m: "m = (urlPrefix @ g, g)"
    by (auto simp: matchAt_def Let_def g_def is_address_def split: if_splits)
  have "s = take 22 s @ take 42 (drop 22 s) @ drop 42 (drop 22 s)"
    by (simp only: append_take_drop_id)
  then have "s = urlPrefix @ g @ drop 42 (drop 22 s)"
    using p by (simp add: g_def)
  with a m show "\<exists>a post. s = urlPrefix @ a @ post \<and> is_address a \<and> m = (urlPrefix @ a, a)"
    by blast
next
  assume "\<exists>a post. s = urlPrefix @ a @ post \<and> is_address a \<and> m = (urlPrefix @ a, a)"
  then obtain a post where s: "s = urlPrefix @ a @ post" and a: "is_address a"
    and m: "m = (urlPrefix @ a, a)" by blast
  from a have la: "length a = 42" by (simp add: is_address_def)
  have t: "take 22 s = urlPrefix" using s length_urlPrefix by simp
  have d: "take 42 (drop 22 s) = a" using s length_urlPrefix la by simp
  show "matchAt s = Some m"
    using a t d m by (simp add: matchAt_def Let_def is_address_def)
qed

lemma matchAt_None_iff:
  "matchAt s = None \<longleftrightarrow> \<not> (\<exists>a post. s = urlPrefix @ a @ post \<and> is_address a)"
proof -
  have "matchAt s \<noteq> None \<longleftrightarrow> (\<exists>m. matchAt s = Some m)" by auto
  also have "\<dots> \<longleftrightarrow> (\<exists>a post. s = urlPrefix @ a @ post \<and> is_address a)"
    unfolding matchAt_Some_iff by blast
  finally show ?thesis by blast
qed

lemma match_url_None_iff:
  "match_url url = None \<longleftrightarrow> \<not> (\<exists>pre a post. url = pre @ urlPrefix @ a @ post \<and> is_address a)"
proof (induction url)
  case Nil
  show ?case by (auto simp: urlPrefix_def)
next
  case (Cons c cs)
  show ?case
  proof
    assume n: "match_url (c # cs) = None"
    then have n1: "matchAt (c # cs) = None" and n2: "match_url cs = None"
      by (auto split: option.splits)
    show "\<not> (\<exists>pre a post. c # cs = pre @ urlPrefix @ a @ post \<and> is_address a)"
    proof
      assume "\<exists>pre a post. c # cs = pre @ urlPrefix @ a @ post \<and> is_address a"
      then obtain pre a post where e: "c # cs = pre @ urlPrefix @ a @ post" and a: "is_address a"
        by blast
      show False
      proof (cases pre)
        case Nil
        with e a n1 show False by (auto simp: matchAt_None_iff)
      next
        case (Cons p ps)
        with e have "cs = ps @ urlPrefix @ a @ post" by simp
        with a n2 Cons.IH show False by blast
      qed
    qed
  next
    assume h: "\<not> (\<exists>pre a post. c # cs = pre @ urlPrefix @ a @ post \<and> is_address a)"
    have n1: "matchAt (c # cs) = None"
      unfolding matchAt_None_iff
    proof
      assume "\<exists>a post. c # cs = urlPrefix @ a @ post \<and> is_address a"
      then obtain a post where "c # cs = [] @ urlPrefix @ a @ post \<and> is_address a" by auto
      with h show False by blast
    qed
    have n2: "match_url cs = None"
      unfolding Cons.IH
    proof
      assume "\<exists>pre a post. cs = pre @ urlPrefix @ a @ post \<and> is_address a"
      then obtain pre a post where "c # cs = (c # pre) @ urlPrefix @ a @ post \<and> is_address a"
        by auto
      with h show False by blast
    qed
    from n1 n2 show "match_url (c # cs) = None" by simp
  qed
qed

lemma match_url_Some:
  "match_url url = Some m \<Longrightarrow>
     \<exists>pre a post. url = pre @ urlPrefix @ a @ post \<and> is_address a \<and> m = (urlPrefix @ a, a)
       \<and> match_url (drop (length pre) url) = Some m \<and> (\<forall>k < length pre. matchAt (drop k url) = None)"
proof (induction url)
  case Nil
  then show ?case by simp
next
  case (Cons c cs)
  show ?case
  proof (cases "matchAt (c # cs)")
    case (Some m')
    with Cons.prems have mm: "m' = m" by simp
    from Some mm obtain a post where "c # cs = urlPrefix @ a @ post" "is_address a" "m = (urlPrefix @ a, a)"
      unfolding matchAt_Some_iff by blast
    then have "c # cs = [] @ urlPrefix @ a @ post \<and> is_address a \<and> m = (urlPrefix @ a, a)
       \<and> match_url (drop (length ([]::string)) (c # cs)) = Some m
       \<and> (\<forall>k < length ([]::string). matchAt (drop k (c # cs)) = None)"
      using Cons.prems by simp
    then show ?thesis by blast
  next
    case None
    with Cons.prems have "match_url cs = Some m" by simp
    from Cons.IH[OF this] obtain pre a post where
      e: "cs = pre @ urlPrefix @ a @ post" and a: "is_address a" and m: "m = (urlPrefix @ a, a)"
      and d: "match_url (drop (length pre) cs) = Some m"
      and k: "\<forall>k < length pre. matchAt (drop k cs) = None" by blast
    have k': "\<forall>k < length (c # pre). matchAt (drop k (c # cs)) = None"
    proof (intro allI impI)
      fix j assume j: "j < length (c # pre)"
      show "matchAt (drop j (c # cs)) = None"
      proof (cases j)
        case 0
        with None show ?thesis by simp
      next
        case (Suc i)
        with j k show ?thesis by simp
      qed
    qed
    have "c # cs = (c # pre) @ urlPrefix @ a @ post \<and> is_address a \<and> m = (urlPrefix @ a, a)
       \<and> match_url (drop (length (c # pre)) (c # cs)) = Some m
       \<and> (\<forall>k < length (c # pre). matchAt (drop k (c # cs)) = None)"
      using e a m d k' by simp
    then show ?thesis by blast
  qed
qed

lemma match_url_leftmost:
  assumes e: "url = pre @ urlPrefix @ a @ post" and a: "is_address a"
    and least: "\<forall>pre' a' post'. url = pre' @ urlPrefix @ a' @ post' \<and> is_address a' \<longrightarrow> length pre \<le> length pre'"
  shows "match_url url = Some (urlPrefix @ a, a)"
proof (cases "match_url url")
  case None
  with e a show ?thesis unfolding match_url_None_iff by blast
next
  case (Some m)
  from match_url_Some[OF this] obtain pre1 a1 post1 where
    e1: "url = pre1 @ urlPrefix @ a1 @ post1" and a1: "is_address a1" and m: "m = (urlPrefix @ a1, a1)"
    and k: "\<forall>k < length pre1. matchAt (drop k url) = None" by blast
  from least e1 a1 have le: "length pre \<le> length pre1" by blast
  have "\<not> length pre < length pre1"
  proof
    assume "length pre < length pre1"
    with k have "matchAt (drop (length pre) url) = None" by blast
    moreover have "drop (length pre) url = urlPrefix @ a @ post" using e by simp
    ultimately show False using a unfolding matchAt_None_iff by auto
  qed
  with le have l: "length pre = length pre1" by simp
  from e e1 l have p: "pre = pre1" by (metis append_eq_append_conv)
  with e e1 have "a @ post = a1 @ post1" by simp
  moreover from a a1 have "length a = length a1" by (simp add: is_address_def)
  ultimately have "a = a1" by simp
  with m Some show ?thesis by simp
qed


subsection \<open>Results and traces of sequenced calls\<close>

lemma fst_io_bind:
  "fst (io_bind m f) = (case fst m of Inl e \<Rightarrow> Inl e | Inr x \<Rightarrow> fst (f x))"
  by (cases m) (auto simp: io_bind_def split: sum.splits prod.splits)

lemma snd_io_bind:
  "snd (io_bind m f) = (case fst m of Inl e \<Rightarrow> snd m | Inr x \<Rightarrow> snd m @ snd (f x))"
  by (cases m) (auto simp: io_bind_def split: sum.splits prod.splits)

lemma fst_io_catch:
  "fst (io_catch m h) = (case fst m of Inl e \<Rightarrow> fst (h e) | Inr x \<Rightarrow> Inr x)"
  by (cases m) (auto simp: io_catch_def split: sum.splits prod.splits)

lemma snd_io_catch:
  "snd (io_catch m h) = (case fst m of Inl e \<Rightarrow> snd m @ snd (h e) | Inr x \<Rightarrow> snd m)"
  by (cases m) (auto simp: io_catch_def split: sum.splits prod.splits)

lemmas io_simps =
  fst_io_bind snd_io_bind fst_io_catch snd_io_catch io_return_def io_throw_def io_lift_def
  read_io_def fetch_io_def console_log_def

lemma sell_block:
  "(if url \<noteq> [] then (case match_url url of Some m \<Rightarrow> snd m | None \<Rightarrow> SUPER_RARE_ADDRESS)
    else SUPER_RARE_ADDRESS) = resolved_address url"
  by (cases url) (simp_all add: resolved_address_def)

lemma contracts_read_append [simp]:
  "contracts_read (t @ u) = contracts_read t @ contracts_read u"
  by (simp add: contracts_read_def)

lemma contracts_read_simps [simp]:
  "contracts_read [] = []"
  "contracts_read (ContractRead a addr fn args # t) = addr # contracts_read t"
  "contracts_read (Fetch uri # t) = contracts_read t"
  "contracts_read (ConsoleLog s # t) = contracts_read t"
  by (simp_all add: contracts_read_def)

lemma snd_getSalePrices:
  "snd (getSalePrices svc a n) =
     [ContractRead SuperRareMarketplaceABI SUPER_RARE_MINTER_ADDRESS ''tokenSalePrices''
        [AString a, ABigInt n, AString ZERO_ADDRESS]]"
  by (simp add: getSalePrices_def io_simps split: sum.splits)

lemma bigint_div_nonneg: "0 \<le> a \<Longrightarrow> 0 < b \<Longrightarrow> bigint_div a b = a div b"
  by (cases "a = 0") (simp_all add: bigint_div_def)

lemma getArgs_eq:
  "getArgs svc c t s sig p q po url =
     (Inr [AString (resolved_address url), ABigInt t, AString ZERO_ADDRESS, ABigInt p], [])"
  by (simp add: getArgs_def Let_def sell_block io_return_def)

lemma getPrice_eq:
  "getPrice svc c n sig usr u url =
     io_bind (getSalePrices svc (case url of None \<Rightarrow> SUPER_RARE_ADDRESS | Some x \<Rightarrow> resolved_address x) n)
       (\<lambda>sp. if \<not> isSaleValid sp then io_return None
             else io_return (Some ((bigint_div (price (the sp) * getFees) 100 + price (the sp))
                    * (case u of None \<Rightarrow> 1 | Some v \<Rightarrow> v))))"
  by (cases url) (simp_all add: getPrice_def Let_def sell_block)

lemma fst_getUIData:
  "fst (getUIData svc sig c t d url) =
     (let a = resolved_address url in
      case (if toLowerCase a = toLowerCase SUPER_RARE_ADDRESS
            then readContract (client svc) SuperRareV2ABI a ''tokenCreator'' [ABigInt t]
            else (case readContract (client svc) OwnableABI a ''owner'' [] of
                    Inl e \<Rightarrow> Inr AUndefined | Inr v \<Rightarrow> Inr v)) of
        Inl e \<Rightarrow> Inl e
      | Inr owner \<Rightarrow>
          (case readContract (client svc) ERC721ABI a ''tokenURI'' [ABigInt t] of
             Inl e \<Rightarrow> Inl e
           | Inr uri \<Rightarrow>
               (case fetch (client svc) uri of
                  Inl e \<Rightarrow> Inl e
                | Inr r \<Rightarrow>
                    if \<not> ok r then Inl (Error ''Token data not found'')
                    else
                      (case json r of
                         Inl e \<Rightarrow> Inl e
                       | Inr j \<Rightarrow>
                           (case json_get j ''name'' of
                              Inl e \<Rightarrow> Inl e
                            | Inr nm \<Rightarrow>
                                if \<not> json_truthy nm then Inl (Error ''Collection name not found'')
                                else
                                  (case json_get j ''image'' of
                                     Inl e \<Rightarrow> Inl e
                                   | Inr im \<Rightarrow>
                                       if \<not> json_truthy im
                                       then Inl (Error ''Preview asset url not found'')
                                       else Inr (Some \<lparr>platformName = service.platformName svc,
                                              platformLogoUrl = service.platformLogoUrl svc,
                                              nftName = nm, nftUri = im, tokenStandard = ''erc721'',
                                              nftCreatorAddress = (if abi_truthy owner then Some owner else None),
                                              dstChainId = Number d\<rparr>)))))))"
  unfolding getUIData_def sell_block Let_def
  by (simp add: io_simps split: sum.splits)


lemma lacks_field_get:
  "lacks_field j k \<Longrightarrow> json_get j k = Inl TypeError \<or> json_get j k = Inr JUndefined"
proof (cases j)
  case (JObject kvs)
  assume "lacks_field j k"
  with JObject have "k \<notin> fst ` set kvs" by (simp add: lacks_field_def)
  then have "k \<notin> fst ` set (rev kvs)" by simp
  then have "map_of (rev kvs) k = None" by (simp add: map_of_eq_None_iff)
  with JObject show ?thesis by simp
qed simp_all

lemma empty_or_missing_get:
  "empty_or_missing j k \<Longrightarrow>
     json_get j k = Inl TypeError \<or> (\<exists>v. json_get j k = Inr v \<and> \<not> json_truthy v)"
  using lacks_field_get [of j k] by (auto simp: empty_or_missing_def)

lemma isSaleValid_simps:
  "isSaleValid None = False"
  "isSaleValid (Some s) = (price s \<noteq> 0)"
  by (simp_all add: isSaleValid_def)

lemma contracts_getUIData:
  "set (contracts_read (snd (getUIData svc sig c t d url))) = {resolved_address url}"
  unfolding getUIData_def sell_block Let_def
  by (simp add: io_simps split: sum.splits)

lemma snd_getPrice:
  "snd (getPrice svc c n sig usr u url) =
     [ContractRead SuperRareMarketplaceABI SUPER_RARE_MINTER_ADDRESS ''tokenSalePrices''
        [AString (case url of None \<Rightarrow> SUPER_RARE_ADDRESS | Some x \<Rightarrow> resolved_address x),
         ABigInt n, AString ZERO_ADDRESS]]"
  by (simp add: getPrice_eq snd_io_bind snd_getSalePrices io_return_def split: sum.splits)

lemma json_truthy_nonempty:
  "json_truthy v \<Longrightarrow> v \<noteq> JString [] \<and> v \<noteq> JUndefined \<and> v \<noteq> JNull"
  by (cases v) simp_all

subsection \<open>The examples, evaluated\<close>

lemmas example_defs =
  example_service_def example_client_def example_sale_def example_doc_def

lemma example_url_resolved: "resolved_address example_url = example_address"
  by (simp add: resolved_address_def example_url_def example_address_def matchAt_def Let_def
        urlPrefix_def isHexDigit_def)

lemma plain_url_no_match: "match_url plain_url = None"
  by (simp add: plain_url_def matchAt_def urlPrefix_def)

lemma example_address_not_default:
  "toLowerCase example_address \<noteq> toLowerCase SUPER_RARE_ADDRESS"
  by (simp add: example_address_def SUPER_RARE_ADDRESS_def toLowerCase_def toLowerCase_char_def)

lemma example_sale_read:
  "fst (getSalePrices (example_service (example_sale p) doc) a n)
     = Inr (Some \<lparr>price = p, token = ABigInt p, seller = AString ''0xseller''\<rparr>)"
  by (simp add: getSalePrices_def io_simps example_defs BigInt_def)

section \<open>Properties\<close>

text \<open>
  C1. For a valid sale with base price \<open>P\<close> (the sale record \<open>getPrice\<close> reads for the
  resolved selling contract, its price above zero) and the fee of 3 percent,
  \<open>getPrice\<close> with the default unit returns \<open>P + P * 3 div 100\<close>, and with the unit
  count \<open>U\<close> it returns \<open>U * (P + P * 3 div 100)\<close>: the fee is taken on the base
  price with truncating division and added before the multiplication by the unit count.
  The equation holds for every \<open>U\<close>, so for every \<open>U\<close> from 1 on.
\<close>

theorem getPrice_fee_then_units:
  assumes "fst (getSalePrices svc
             (case url of None \<Rightarrow> SUPER_RARE_ADDRESS | Some x \<Rightarrow> resolved_address x) n)
           = Inr (Some s)"
    and "0 < price s"
  shows "fst (getPrice svc c n sig usr None url) = Inr (Some (price s + price s * 3 div 100))
       \<and> fst (getPrice svc c n sig usr (Some U) url)
           = Inr (Some (U * (price s + price s * 3 div 100)))"
  using assms
  by (simp add: getPrice_eq fst_io_bind io_return_def isSaleValid_simps getFees_def
        bigint_div_nonneg mult.commute)

text \<open>
  At base price 50 two units cost 102, not the 103 that a fee on the total of 100 would
  give.
\<close>

theorem getPrice_fee_then_units_witness:
  "fst (getSalePrices (example_service (example_sale 50) example_doc) SUPER_RARE_ADDRESS 7)
     = Inr (Some \<lparr>price = 50, token = ABigInt 50, seller = AString ''0xseller''\<rparr>)
   \<and> (0::int) < price \<lparr>price = 50, token = ABigInt 50, seller = AString ''0xseller''\<rparr>
   \<and> fst (getPrice (example_service (example_sale 50) example_doc) ''0xcontract'' 7 mintSignature
        ''0xbuyer'' None None) = Inr (Some 51)
   \<and> fst (getPrice (example_service (example_sale 50) example_doc) ''0xcontract'' 7 mintSignature
        ''0xbuyer'' (Some 2) None) = Inr (Some 102)
   \<and> (102::int) \<noteq> 50 * 2 + 50 * 2 * 3 div 100"
proof -
  let ?s = "\<lparr>price = 50, token = ABigInt 50, seller = AString ''0xseller''\<rparr>"
  have h1: "fst (getSalePrices (example_service (example_sale 50) example_doc)
              (case None of None \<Rightarrow> SUPER_RARE_ADDRESS | Some x \<Rightarrow> resolved_address x) 7)
            = Inr (Some ?s)"
    by (simp add: example_sale_read)
  have h2: "0 < price ?s" by simp
  from getPrice_fee_then_units [OF h1 h2, of "''0xcontract''" mintSignature "''0xbuyer''" 2]
  show ?thesis using h1 by simp
qed

text \<open>
  C2. For every sale record, whose price is an unsigned integer, \<open>isSaleValid\<close> returns
  true if and only if the record is present and its price is above zero: an absent record
  and a price of zero make it return false.
\<close>

theorem isSaleValid_iff:
  assumes "\<forall>s. sp = Some s \<longrightarrow> 0 \<le> price s"
  shows "isSaleValid sp \<longleftrightarrow> (\<exists>s. sp = Some s \<and> 0 < price s)"
  using assms by (cases sp) (auto simp: isSaleValid_def)

theorem isSaleValid_iff_witness:
  "(0::int) \<le> price \<lparr>price = 50, token = ABigInt 50, seller = AString ''0xseller''\<rparr>
   \<and> isSaleValid (Some \<lparr>price = 50, token = ABigInt 50, seller = AString ''0xseller''\<rparr>)
   \<and> \<not> isSaleValid (Some \<lparr>price = 0, token = ABigInt 0, seller = AString ''0xseller''\<rparr>)
   \<and> \<not> isSaleValid None"
  using isSaleValid_iff [of "Some \<lparr>price = 50, token = ABigInt 50, seller = AString ''0xseller''\<rparr>"]
    isSaleValid_iff [of "Some \<lparr>price = 0, token = ABigInt 0, seller = AString ''0xseller''\<rparr>"]
    isSaleValid_iff [of None]
  by simp

text \<open>
  C3, as stated, fails for \<open>getPrice\<close>: it does not read the sale record of the NFT
  it is handed. On a marketplace where token 7 of \<open>other_contract\<close> has a record of
  price 0, \<open>getMintSignature\<close> returns no signature for that NFT, while
  \<open>getPrice\<close> for the same contract and token, without a source URL or with one whose
  address does not follow the host directly, reads the record of the default contract and
  returns 51.
\<close>

theorem invalid_sale_counterexample:
  "fst (getSalePrices two_sales_service other_contract 7)
     = Inr (Some \<lparr>price = 0, token = ABigInt 0, seller = AString ''0xseller''\<rparr>)
   \<and> fst (getMintSignature two_sales_service \<lparr>contractAddress = other_contract, nftId = ''7''\<rparr>)
       = Inr None
   \<and> fst (getPrice two_sales_service other_contract 7 mintSignature ''0xbuyer'' None None)
       = Inr (Some 51)
   \<and> fst (getPrice two_sales_service other_contract 7 mintSignature ''0xbuyer'' None
            (Some ''https://superrare.com/artwork/eth/0x1111111111111111111111111111111111111111/7''))
       = Inr (Some 51)"
proof -
  have b: "BigInt (AString ''7'') = Inr 7" by code_simp
  have s0: "fst (getSalePrices two_sales_service other_contract 7)
     = Inr (Some \<lparr>price = 0, token = ABigInt 0, seller = AString ''0xseller''\<rparr>)"
    by (simp add: getSalePrices_def io_simps two_sales_service_def two_sales_client_def
          example_sale_def BigInt_def)
  have s1: "fst (getSalePrices two_sales_service SUPER_RARE_ADDRESS 7)
     = Inr (Some \<lparr>price = 50, token = ABigInt 50, seller = AString ''0xseller''\<rparr>)"
    by (simp add: getSalePrices_def io_simps two_sales_service_def two_sales_client_def
          example_sale_def BigInt_def other_contract_def SUPER_RARE_ADDRESS_def)
  have m: "match_url ''https://superrare.com/artwork/eth/0x1111111111111111111111111111111111111111/7'' = None"
    by (simp add: matchAt_def urlPrefix_def)
  show ?thesis
    using b s0 s1 m
    by (simp add: getMintSignature_def getPrice_eq resolved_address_def fst_io_bind io_return_def
          io_lift_def isSaleValid_simps getFees_def bigint_div_def)
qed

text \<open>
  C3, amended. \<open>getMintSignature\<close> returns no signature when the sale record of the
  extraction's contract and token id is absent or has price 0. \<open>getPrice\<close> returns no
  price when the sale record of the selling contract resolved from the source URL (the
  default contract without one), for the token id it is handed, is absent or has price 0;
  the contract address it is handed plays no part.
\<close>

theorem invalid_sale_is_absent:
  "(BigInt (AString (nftId ex)) = Inr n
      \<and> fst (getSalePrices svc (contractAddress ex) n) = Inr sp
      \<and> (sp = None \<or> (\<exists>s. sp = Some s \<and> price s = 0))
      \<longrightarrow> fst (getMintSignature svc ex) = Inr None)
   \<and> (fst (getSalePrices svc
              (case url of None \<Rightarrow> SUPER_RARE_ADDRESS | Some x \<Rightarrow> resolved_address x) m)
        = Inr sp'
      \<and> (sp' = None \<or> (\<exists>s. sp' = Some s \<and> price s = 0))
      \<longrightarrow> fst (getPrice svc c m sig usr u url) = Inr None)"
proof (intro conjI impI)
  assume "BigInt (AString (nftId ex)) = Inr n
      \<and> fst (getSalePrices svc (contractAddress ex) n) = Inr sp
      \<and> (sp = None \<or> (\<exists>s. sp = Some s \<and> price s = 0))"
  then show "fst (getMintSignature svc ex) = Inr None"
    by (auto simp: getMintSignature_def fst_io_bind io_return_def io_lift_def isSaleValid_simps)
next
  assume "fst (getSalePrices svc
              (case url of None \<Rightarrow> SUPER_RARE_ADDRESS | Some x \<Rightarrow> resolved_address x) m)
        = Inr sp'
      \<and> (sp' = None \<or> (\<exists>s. sp' = Some s \<and> price s = 0))"
  then show "fst (getPrice svc c m sig usr u url) = Inr None"
    by (auto simp: getPrice_eq fst_io_bind io_return_def isSaleValid_simps)
qed

text \<open>
  A record of price 0 for the first part and for the second; an absent record (the
  marketplace answers \<^verbatim>\<open>undefined\<close>) for both again.
\<close>

theorem invalid_sale_is_absent_witness:
  "BigInt (AString (nftId \<lparr>contractAddress = SUPER_RARE_ADDRESS, nftId = ''7''\<rparr>)) = Inr 7
   \<and> fst (getSalePrices (example_service (example_sale 0) example_doc) SUPER_RARE_ADDRESS 7)
       = Inr (Some \<lparr>price = 0, token = ABigInt 0, seller = AString ''0xseller''\<rparr>)
   \<and> fst (getMintSignature (example_service (example_sale 0) example_doc)
            \<lparr>contractAddress = SUPER_RARE_ADDRESS, nftId = ''7''\<rparr>) = Inr None
   \<and> fst (getPrice (example_service (example_sale 0) example_doc) ''0xcontract'' 7 mintSignature
            ''0xbuyer'' None None) = Inr None
   \<and> fst (getSalePrices (example_service AUndefined example_doc) SUPER_RARE_ADDRESS 7) = Inr None
   \<and> fst (getMintSignature (example_service AUndefined example_doc)
            \<lparr>contractAddress = SUPER_RARE_ADDRESS, nftId = ''7''\<rparr>) = Inr None
   \<and> fst (getPrice (example_service AUndefined example_doc) ''0xcontract'' 7 mintSignature
            ''0xbuyer'' None None) = Inr None"
proof -
  let ?svc = "example_service (example_sale 0) example_doc"
  let ?svc' = "example_service AUndefined example_doc"
  let ?ex = "\<lparr>contractAddress = SUPER_RARE_ADDRESS, nftId = ''7''\<rparr>"
  let ?s = "\<lparr>price = 0, token = ABigInt 0, seller = AString ''0xseller''\<rparr>"
  have h1: "BigInt (AString (nftId ?ex)) = Inr 7"
    by code_simp
  have h2: "fst (getSalePrices ?svc SUPER_RARE_ADDRESS 7) = Inr (Some ?s)"
    by (simp add: example_sale_read)
  have h3: "fst (getSalePrices ?svc' SUPER_RARE_ADDRESS 7) = Inr None"
    by (simp add: getSalePrices_def io_simps example_defs)
  from invalid_sale_is_absent [of ?ex 7 ?svc "Some ?s" None 7 "Some ?s" "''0xcontract''"
      mintSignature "''0xbuyer''" None]
    invalid_sale_is_absent [of ?ex 7 ?svc' None None 7 None "''0xcontract''"
      mintSignature "''0xbuyer''" None]
  show ?thesis using h1 h2 h3 by simp
qed

text \<open>
  C4. \<open>getArgs\<close>, \<open>getPrice\<close> and \<open>getUIData\<close> resolve one and the same selling
  contract \<open>a\<close> from a source URL: \<open>getArgs\<close> passes it as first argument,
  \<open>getPrice\<close> asks the marketplace for its sale record, and every contract read of
  \<open>getUIData\<close> goes to it. Where the URL contains a segment
  \<^verbatim>\<open>https://superrare.com/\<close> followed by an address, \<open>a\<close> is the address of the
  leftmost such segment; where it contains none, \<open>a\<close> is \<open>SUPER_RARE_ADDRESS\<close>.
\<close>

theorem sell_address_from_url:
  "\<exists>a. fst (getArgs svc c t s sig p q po url)
          = Inr [AString a, ABigInt t, AString ZERO_ADDRESS, ABigInt p]
     \<and> snd (getPrice svc c t sig usr u (Some url))
          = [ContractRead SuperRareMarketplaceABI SUPER_RARE_MINTER_ADDRESS ''tokenSalePrices''
               [AString a, ABigInt t, AString ZERO_ADDRESS]]
     \<and> set (contracts_read (snd (getUIData svc sig c t d url))) = {a}
     \<and> (\<forall>pre a0 post.
           url = pre @ ''https://superrare.com/'' @ a0 @ post \<and> is_address a0
           \<and> (\<forall>pre' a' post'.
                 url = pre' @ ''https://superrare.com/'' @ a' @ post' \<and> is_address a'
                 \<longrightarrow> length pre \<le> length pre')
           \<longrightarrow> a = a0)
     \<and> ((\<nexists>pre a0 post. url = pre @ ''https://superrare.com/'' @ a0 @ post \<and> is_address a0)
           \<longrightarrow> a = SUPER_RARE_ADDRESS)"
proof -
  have first: "\<forall>pre a0 post.
           url = pre @ ''https://superrare.com/'' @ a0 @ post \<and> is_address a0
           \<and> (\<forall>pre' a' post'.
                 url = pre' @ ''https://superrare.com/'' @ a' @ post' \<and> is_address a'
                 \<longrightarrow> length pre \<le> length pre')
           \<longrightarrow> resolved_address url = a0"
  proof (intro allI impI)
    fix pre a0 post
    assume "url = pre @ ''https://superrare.com/'' @ a0 @ post \<and> is_address a0
           \<and> (\<forall>pre' a' post'.
                 url = pre' @ ''https://superrare.com/'' @ a' @ post' \<and> is_address a'
                 \<longrightarrow> length pre \<le> length pre')"
    then have "match_url url = Some (urlPrefix @ a0, a0)"
      using match_url_leftmost [of url pre a0 post] by (simp add: urlPrefix_def)
    then show "resolved_address url = a0" by (simp add: resolved_address_def)
  qed
  have none: "(\<nexists>pre a0 post. url = pre @ ''https://superrare.com/'' @ a0 @ post \<and> is_address a0)
           \<longrightarrow> resolved_address url = SUPER_RARE_ADDRESS"
  proof
    assume "\<nexists>pre a0 post. url = pre @ ''https://superrare.com/'' @ a0 @ post \<and> is_address a0"
    then have "match_url url = None"
      using match_url_None_iff [of url] by (simp add: urlPrefix_def)
    then show "resolved_address url = SUPER_RARE_ADDRESS" by (simp add: resolved_address_def)
  qed
  have "fst (getArgs svc c t s sig p q po url)
          = Inr [AString (resolved_address url), ABigInt t, AString ZERO_ADDRESS, ABigInt p]"
    by (simp add: getArgs_eq)
  moreover have "snd (getPrice svc c t sig usr u (Some url))
          = [ContractRead SuperRareMarketplaceABI SUPER_RARE_MINTER_ADDRESS ''tokenSalePrices''
               [AString (resolved_address url), ABigInt t, AString ZERO_ADDRESS]]"
    by (simp add: snd_getPrice)
  moreover note contracts_getUIData [of svc sig c t d url] first none
  ultimately show ?thesis by blast
qed

theorem sell_address_from_url_witness:
  "example_url = [] @ ''https://superrare.com/'' @ example_address @ ''/sunrise-7''
   \<and> is_address example_address
   \<and> fst (getArgs (example_service (example_sale 50) example_doc) ''0xcontract'' 7 ''0xsender''
          mintSignature 51 1 ''0xprofile'' example_url)
     = Inr [AString example_address, ABigInt 7, AString ZERO_ADDRESS, ABigInt 51]
   \<and> snd (getPrice (example_service (example_sale 50) example_doc) ''0xcontract'' 7 mintSignature
          ''0xbuyer'' None (Some example_url))
     = [ContractRead SuperRareMarketplaceABI SUPER_RARE_MINTER_ADDRESS ''tokenSalePrices''
          [AString example_address, ABigInt 7, AString ZERO_ADDRESS]]
   \<and> set (contracts_read (snd (getUIData (example_service (example_sale 50) example_doc)
          mintSignature ''0xcontract'' 7 137 example_url))) = {example_address}
   \<and> (\<nexists>pre a0 post. plain_url = pre @ ''https://superrare.com/'' @ a0 @ post \<and> is_address a0)
   \<and> fst (getArgs (example_service (example_sale 50) example_doc) ''0xcontract'' 7 ''0xsender''
          mintSignature 51 1 ''0xprofile'' plain_url)
     = Inr [AString SUPER_RARE_ADDRESS, ABigInt 7, AString ZERO_ADDRESS, ABigInt 51]
   \<and> snd (getPrice (example_service (example_sale 50) example_doc) ''0xcontract'' 7 mintSignature
          ''0xbuyer'' None (Some plain_url))
     = [ContractRead SuperRareMarketplaceABI SUPER_RARE_MINTER_ADDRESS ''tokenSalePrices''
          [AString SUPER_RARE_ADDRESS, ABigInt 7, AString ZERO_ADDRESS]]
   \<and> set (contracts_read (snd (getUIData (example_service (example_sale 50) example_doc)
          mintSignature ''0xcontract'' 7 137 plain_url))) = {SUPER_RARE_ADDRESS}"
proof -
  let ?svc = "example_service (example_sale 50) example_doc"
  have e: "example_url = [] @ ''https://superrare.com/'' @ example_address @ ''/sunrise-7''
         \<and> is_address example_address
         \<and> (\<forall>pre' a' post'.
               example_url = pre' @ ''https://superrare.com/'' @ a' @ post' \<and> is_address a'
               \<longrightarrow> length ([]::string) \<le> length pre')"
    by (simp add: example_url_def example_address_def is_address_def isHexDigit_def)
  have n: "\<nexists>pre a0 post. plain_url = pre @ ''https://superrare.com/'' @ a0 @ post \<and> is_address a0"
    using plain_url_no_match match_url_None_iff [of plain_url] by (simp add: urlPrefix_def)
  obtain a where a:
    "fst (getArgs ?svc ''0xcontract'' 7 ''0xsender'' mintSignature 51 1 ''0xprofile'' example_url)
       = Inr [AString a, ABigInt 7, AString ZERO_ADDRESS, ABigInt 51]"
    "snd (getPrice ?svc ''0xcontract'' 7 mintSignature ''0xbuyer'' None (Some example_url))
       = [ContractRead SuperRareMarketplaceABI SUPER_RARE_MINTER_ADDRESS ''tokenSalePrices''
            [AString a, ABigInt 7, AString ZERO_ADDRESS]]"
    "set (contracts_read (snd (getUIData ?svc mintSignature ''0xcontract'' 7 137 example_url))) = {a}"
    "a = example_address"
    using sell_address_from_url [of ?svc "''0xcontract''" 7 "''0xsender''" mintSignature 51 1
        "''0xprofile''" example_url "''0xbuyer''" None 137] e
    by blast
  obtain b where b:
    "fst (getArgs ?svc ''0xcontract'' 7 ''0xsender'' mintSignature 51 1 ''0xprofile'' plain_url)
       = Inr [AString b, ABigInt 7, AString ZERO_ADDRESS, ABigInt 51]"
    "snd (getPrice ?svc ''0xcontract'' 7 mintSignature ''0xbuyer'' None (Some plain_url))
       = [ContractRead SuperRareMarketplaceABI SUPER_RARE_MINTER_ADDRESS ''tokenSalePrices''
            [AString b, ABigInt 7, AString ZERO_ADDRESS]]"
    "set (contracts_read (snd (getUIData ?svc mintSignature ''0xcontract'' 7 137 plain_url))) = {b}"
    "b = SUPER_RARE_ADDRESS"
    using sell_address_from_url [of ?svc "''0xcontract''" 7 "''0xsender''" mintSignature 51 1
        "''0xprofile''" plain_url "''0xbuyer''" None 137] n
    by blast
  from a b e n show ?thesis by simp
qed

text \<open>
  C5, as stated, fails: the contract address that \<open>getArgs\<close> places in the argument list
  is not always the contract address it is handed from the extraction. For the contract
  \<^verbatim>\<open>0x1111...\<close>, token 7 and a source URL whose address does not follow the host
  directly, the first argument is \<open>SUPER_RARE_ADDRESS\<close>.
\<close>

theorem getArgs_contract_counterexample:
  "fst (getArgs (example_service (example_sale 50) example_doc)
          ''0x1111111111111111111111111111111111111111'' 7 ''0xsender'' mintSignature 51 1
          ''0xprofile''
          ''https://superrare.com/artwork/eth/0x1111111111111111111111111111111111111111/7'')
     = Inr [AString SUPER_RARE_ADDRESS, ABigInt 7, AString ZERO_ADDRESS, ABigInt 51]
   \<and> SUPER_RARE_ADDRESS \<noteq> ''0x1111111111111111111111111111111111111111''"
  by (simp add: getArgs_def Let_def io_return_def matchAt_def urlPrefix_def SUPER_RARE_ADDRESS_def)

text \<open>
  C5, amended. The token id in the argument list returned by \<open>getArgs\<close> is the token id
  it is handed; the contract address in the list is the selling contract resolved from the
  source URL, so it equals the contract address handed over exactly when that address is
  the resolved one.
\<close>

theorem getArgs_round_trip:
  "\<exists>args. fst (getArgs svc c t s sig p q po url) = Inr args
      \<and> args ! 1 = ABigInt t
      \<and> args ! 0 = AString (resolved_address url)
      \<and> (args ! 0 = AString c \<longleftrightarrow> c = resolved_address url)"
  by (auto simp: getArgs_eq)

theorem getArgs_round_trip_witness:
  "\<exists>args. fst (getArgs (example_service (example_sale 50) example_doc) example_address 7
                ''0xsender'' mintSignature 51 1 ''0xprofile'' example_url) = Inr args
      \<and> args ! 1 = ABigInt 7
      \<and> args ! 0 = AString example_address"
  using getArgs_round_trip [of "example_service (example_sale 50) example_doc" example_address 7
      "''0xsender''" mintSignature 51 1 "''0xprofile''" example_url]
  by (simp add: example_url_resolved)

text \<open>
  C6. \<open>getUIData\<close> fails with an error whenever the metadata behind the token's URI is
  unusable: the fetch throws, the response is not \<^verbatim>\<open>ok\<close>, the body does not
  parse, or the document lacks the name or lacks the image. A document with a name and no
  image is among them.
\<close>

theorem getUIData_metadata_fatal:
  assumes "\<forall>uri. readContract (client svc) ERC721ABI (resolved_address url) ''tokenURI''
                    [ABigInt t] = Inr uri
                 \<longrightarrow> metadata_unusable (client svc) uri"
  shows "\<exists>e. fst (getUIData svc sig c t d url) = Inl e"
proof -
  have bad: "\<exists>e. (case json_get j ''name'' of
                Inl e \<Rightarrow> Inl e
              | Inr nm \<Rightarrow>
                  if \<not> json_truthy nm then Inl (Error ''Collection name not found'')
                  else
                    (case json_get j ''image'' of
                       Inl e \<Rightarrow> Inl e
                     | Inr im \<Rightarrow>
                         if \<not> json_truthy im then Inl (Error ''Preview asset url not found'')
                         else Inr (k nm im))) = (Inl e :: error + 'z)"
    if "lacks_field j ''name'' \<or> lacks_field j ''image''"
    for j and k :: "json_value \<Rightarrow> json_value \<Rightarrow> 'z"
    using that lacks_field_get [of j "''name''"] lacks_field_get [of j "''image''"]
    by (auto split: sum.splits)
  show ?thesis
    using assms
    unfolding fst_getUIData Let_def metadata_unusable_def
    by (auto split: sum.splits dest!: bad)
qed

theorem getUIData_metadata_fatal_witness:
  "readContract (client (example_service (example_sale 50) example_doc_no_image)) ERC721ABI
     (resolved_address example_url) ''tokenURI'' [ABigInt 7] = Inr (AString ''ipfs://token'')
   \<and> metadata_unusable (client (example_service (example_sale 50) example_doc_no_image))
         (AString ''ipfs://token'')
   \<and> (\<exists>e. fst (getUIData (example_service (example_sale 50) example_doc_no_image) mintSignature
               ''0xcontract'' 7 137 example_url) = Inl e)
   \<and> fst (getUIData (example_service (example_sale 50) example_doc_no_image) mintSignature
               ''0xcontract'' 7 137 example_url) = Inl (Error ''Preview asset url not found'')"
proof -
  let ?svc = "example_service (example_sale 50) example_doc_no_image"
  have h: "\<forall>uri. readContract (client ?svc) ERC721ABI (resolved_address example_url) ''tokenURI''
                    [ABigInt 7] = Inr uri \<longrightarrow> metadata_unusable (client ?svc) uri"
    by (simp add: example_service_def example_client_def example_doc_no_image_def
          metadata_unusable_def lacks_field_def)
  have v: "fst (getUIData ?svc mintSignature ''0xcontract'' 7 137 example_url)
             = Inl (Error ''Preview asset url not found'')"
    by (simp add: fst_getUIData example_url_resolved example_address_not_default
          example_service_def example_client_def example_doc_no_image_def)
  have u: "readContract (client ?svc) ERC721ABI (resolved_address example_url) ''tokenURI''
             [ABigInt 7] = Inr (AString ''ipfs://token'')"
    by (simp add: example_service_def example_client_def)
  from u h have m: "metadata_unusable (client ?svc) (AString ''ipfs://token'')" by blast
  from getUIData_metadata_fatal [OF h] u m v show ?thesis by blast
qed

text \<open>
  C7, as stated, fails: for a metadata document whose name is an empty array and whose
  image is an empty object, both truthy, \<open>getUIData\<close> returns successfully with these
  empty values as \<open>nftName\<close> and \<open>nftUri\<close>.
\<close>

theorem getUIData_empty_fields_counterexample:
  "fst (getUIData (example_service (example_sale 50) example_doc_empty_fields) mintSignature
          ''0xcontract'' 7 137 plain_url)
     = Inr (Some \<lparr>platformName = ''SuperRare'', platformLogoUrl = ''logo.png'',
                   nftName = JArray [], nftUri = JObject [],
                   tokenStandard = ''erc721'', nftCreatorAddress = Some (AString ''0xcreator''),
                   dstChainId = Finite 137\<rparr>)"
  by (simp add: fst_getUIData resolved_address_def plain_url_no_match example_service_def
        example_client_def example_doc_empty_fields_def Number_def Let_def)

text \<open>
  C7, amended. Whenever \<open>getUIData\<close> returns successfully, \<open>nftName\<close> and
  \<open>nftUri\<close> are the name and the image of the metadata document fetched from the
  token's URI, and both are truthy: neither is the empty string, \<^verbatim>\<open>null\<close> or
  missing. Whenever the name or the image of the fetched document is missing,
  \<^verbatim>\<open>null\<close> or the empty string, \<open>getUIData\<close> fails.
\<close>

theorem getUIData_name_and_uri_of_metadata:
  "(fst (getUIData svc sig c t d url) = Inr r \<longrightarrow>
      (\<exists>ui uri resp j.
          r = Some ui
        \<and> readContract (client svc) ERC721ABI (resolved_address url) ''tokenURI'' [ABigInt t] = Inr uri
        \<and> fetch (client svc) uri = Inr resp \<and> ok resp \<and> json resp = Inr j
        \<and> json_get j ''name'' = Inr (nftName ui) \<and> json_get j ''image'' = Inr (nftUri ui)
        \<and> json_truthy (nftName ui) \<and> json_truthy (nftUri ui)
        \<and> nftName ui \<noteq> JString [] \<and> nftName ui \<noteq> JUndefined \<and> nftName ui \<noteq> JNull
        \<and> nftUri ui \<noteq> JString [] \<and> nftUri ui \<noteq> JUndefined \<and> nftUri ui \<noteq> JNull))
   \<and> (readContract (client svc) ERC721ABI (resolved_address url) ''tokenURI'' [ABigInt t] = Inr uri'
        \<and> fetch (client svc) uri' = Inr resp' \<and> json resp' = Inr j'
        \<and> (empty_or_missing j' ''name'' \<or> empty_or_missing j' ''image'')
      \<longrightarrow> (\<exists>e. fst (getUIData svc sig c t d url) = Inl e))"
proof (intro conjI impI)
  assume "fst (getUIData svc sig c t d url) = Inr r"
  then show "\<exists>ui uri resp j.
          r = Some ui
        \<and> readContract (client svc) ERC721ABI (resolved_address url) ''tokenURI'' [ABigInt t] = Inr uri
        \<and> fetch (client svc) uri = Inr resp \<and> ok resp \<and> json resp = Inr j
        \<and> json_get j ''name'' = Inr (nftName ui) \<and> json_get j ''image'' = Inr (nftUri ui)
        \<and> json_truthy (nftName ui) \<and> json_truthy (nftUri ui)
        \<and> nftName ui \<noteq> JString [] \<and> nftName ui \<noteq> JUndefined \<and> nftName ui \<noteq> JNull
        \<and> nftUri ui \<noteq> JString [] \<and> nftUri ui \<noteq> JUndefined \<and> nftUri ui \<noteq> JNull"
    unfolding fst_getUIData Let_def
    by (auto split: sum.splits if_splits dest: json_truthy_nonempty)
next
  assume h: "readContract (client svc) ERC721ABI (resolved_address url) ''tokenURI'' [ABigInt t] = Inr uri'
        \<and> fetch (client svc) uri' = Inr resp' \<and> json resp' = Inr j'
        \<and> (empty_or_missing j' ''name'' \<or> empty_or_missing j' ''image'')"
  then have "json_get j' ''name'' = Inl TypeError
        \<or> (\<exists>v. json_get j' ''name'' = Inr v \<and> \<not> json_truthy v)
        \<or> json_get j' ''image'' = Inl TypeError
        \<or> (\<exists>v. json_get j' ''image'' = Inr v \<and> \<not> json_truthy v)"
    using empty_or_missing_get [of j' "''name''"] empty_or_missing_get [of j' "''image''"]
    by blast
  with h show "\<exists>e. fst (getUIData svc sig c t d url) = Inl e"
    unfolding fst_getUIData Let_def
    by (auto split: sum.splits)
qed

theorem getUIData_name_and_uri_of_metadata_witness:
  "fst (getUIData (example_service (example_sale 50) example_doc) mintSignature ''0xcontract'' 7 137
          plain_url)
     = Inr (Some \<lparr>platformName = ''SuperRare'', platformLogoUrl = ''logo.png'',
                   nftName = JString ''Sunrise'', nftUri = JString ''ipfs://image'',
                   tokenStandard = ''erc721'', nftCreatorAddress = Some (AString ''0xcreator''),
                   dstChainId = Finite 137\<rparr>)
   \<and> json_get example_doc ''name'' = Inr (JString ''Sunrise'')
   \<and> json_get example_doc ''image'' = Inr (JString ''ipfs://image'')
   \<and> readContract (client (example_service (example_sale 50) example_doc_empty_name)) ERC721ABI
        (resolved_address plain_url) ''tokenURI'' [ABigInt 7] = Inr (AString ''ipfs://token'')
   \<and> fetch (client (example_service (example_sale 50) example_doc_empty_name))
        (AString ''ipfs://token'') = Inr \<lparr>ok = True, json = Inr example_doc_empty_name\<rparr>
   \<and> empty_or_missing example_doc_empty_name ''name''
   \<and> (\<exists>e. fst (getUIData (example_service (example_sale 50) example_doc_empty_name) mintSignature
               ''0xcontract'' 7 137 plain_url) = Inl e)"
proof -
  let ?svc = "example_service (example_sale 50) example_doc"
  let ?svc' = "example_service (example_sale 50) example_doc_empty_name"
  let ?ui = "\<lparr>platformName = ''SuperRare'', platformLogoUrl = ''logo.png'',
                   nftName = JString ''Sunrise'', nftUri = JString ''ipfs://image'',
                   tokenStandard = ''erc721'', nftCreatorAddress = Some (AString ''0xcreator''),
                   dstChainId = Finite 137\<rparr>"
  have h: "fst (getUIData ?svc mintSignature ''0xcontract'' 7 137 plain_url) = Inr (Some ?ui)"
    by (simp add: fst_getUIData resolved_address_def plain_url_no_match example_defs
          Number_def Let_def)
  have g: "json_get example_doc ''name'' = Inr (JString ''Sunrise'')"
    "json_get example_doc ''image'' = Inr (JString ''ipfs://image'')"
    by (simp_all add: example_doc_def)
  have u: "readContract (client ?svc') ERC721ABI (resolved_address plain_url) ''tokenURI''
             [ABigInt 7] = Inr (AString ''ipfs://token'')"
    by (simp add: example_service_def example_client_def)
  have f: "fetch (client ?svc') (AString ''ipfs://token'')
             = Inr \<lparr>ok = True, json = Inr example_doc_empty_name\<rparr>"
    by (simp add: example_service_def example_client_def)
  have j: "json \<lparr>ok = True, json = Inr example_doc_empty_name\<rparr> = Inr example_doc_empty_name"
    by simp
  have e: "empty_or_missing example_doc_empty_name ''name''"
    by (simp add: empty_or_missing_def example_doc_empty_name_def)
  have "\<exists>e. fst (getUIData ?svc' mintSignature ''0xcontract'' 7 137 plain_url) = Inl e"
    using getUIData_name_and_uri_of_metadata [of ?svc' mintSignature "''0xcontract''" 7 137
        plain_url "Some ?ui" "AString ''ipfs://token''"
        "\<lparr>ok = True, json = Inr example_doc_empty_name\<rparr>" example_doc_empty_name,
        THEN conjunct2, rule_format] u f j e
    by simp
  moreover have "\<exists>ui. Some ?ui = Some ui \<and> json_truthy (nftName ui) \<and> json_truthy (nftUri ui)"
  proof -
    from getUIData_name_and_uri_of_metadata [of ?svc mintSignature "''0xcontract''" 7 137
        plain_url "Some ?ui", THEN conjunct1, rule_format, OF h]
    obtain ui uri resp j where "Some ?ui = Some ui" "json_truthy (nftName ui)"
      "json_truthy (nftUri ui)" by blast
    then show ?thesis by blast
  qed
  ultimately show ?thesis using h g u f e by simp
qed

text \<open>
  C8. When the resolved selling contract is not the default contract and the
  \<^verbatim>\<open>owner()\<close> read on it fails, while the token URI is read and its metadata is
  fetched with a name and an image, \<open>getUIData\<close> returns successfully, the returned
  \<open>UIData\<close> has no \<open>nftCreatorAddress\<close>, and the failure is logged.
\<close>

theorem owner_read_failure_not_fatal:
  assumes "toLowerCase (resolved_address url) \<noteq> toLowerCase SUPER_RARE_ADDRESS"
    and "readContract (client svc) OwnableABI (resolved_address url) ''owner'' [] = Inl e"
    and "readContract (client svc) ERC721ABI (resolved_address url) ''tokenURI'' [ABigInt t]
           = Inr uri"
    and "fetch (client svc) uri = Inr r" and "ok r" and "json r = Inr j"
    and "json_get j ''name'' = Inr nm" and "json_truthy nm"
    and "json_get j ''image'' = Inr im" and "json_truthy im"
  shows "fst (getUIData svc sig c t d url)
           = Inr (Some \<lparr>platformName = service.platformName svc,
                         platformLogoUrl = service.platformLogoUrl svc,
                         nftName = nm, nftUri = im, tokenStandard = ''erc721'',
                         nftCreatorAddress = None, dstChainId = Number d\<rparr>)
       \<and> ConsoleLog ''Not ownable contract, nftCreatorAddress not found''
           \<in> set (snd (getUIData svc sig c t d url))"
proof
  show "fst (getUIData svc sig c t d url)
           = Inr (Some \<lparr>platformName = service.platformName svc,
                         platformLogoUrl = service.platformLogoUrl svc,
                         nftName = nm, nftUri = im, tokenStandard = ''erc721'',
                         nftCreatorAddress = None, dstChainId = Number d\<rparr>)"
    using assms by (simp add: fst_getUIData)
  show "ConsoleLog ''Not ownable contract, nftCreatorAddress not found''
           \<in> set (snd (getUIData svc sig c t d url))"
    using assms(1,2) unfolding getUIData_def sell_block Let_def
    by (simp add: io_simps split: sum.splits)
qed

theorem owner_read_failure_not_fatal_witness:
  "toLowerCase (resolved_address example_url) \<noteq> toLowerCase SUPER_RARE_ADDRESS
   \<and> readContract (client (example_service (example_sale 50) example_doc)) OwnableABI
        (resolved_address example_url) ''owner'' [] = Inl (ReadError ''execution reverted'')
   \<and> fst (getUIData (example_service (example_sale 50) example_doc) mintSignature ''0xcontract'' 7
        137 example_url)
     = Inr (Some \<lparr>platformName = ''SuperRare'', platformLogoUrl = ''logo.png'',
                   nftName = JString ''Sunrise'', nftUri = JString ''ipfs://image'',
                   tokenStandard = ''erc721'', nftCreatorAddress = None,
                   dstChainId = Finite 137\<rparr>)
   \<and> ConsoleLog ''Not ownable contract, nftCreatorAddress not found''
        \<in> set (snd (getUIData (example_service (example_sale 50) example_doc) mintSignature
                      ''0xcontract'' 7 137 example_url))"
proof -
  let ?svc = "example_service (example_sale 50) example_doc"
  have h1: "toLowerCase (resolved_address example_url) \<noteq> toLowerCase SUPER_RARE_ADDRESS"
    by (simp add: example_url_resolved example_address_not_default)
  have h2: "readContract (client ?svc) OwnableABI (resolved_address example_url) ''owner'' []
              = Inl (ReadError ''execution reverted'')"
    by (simp add: example_defs)
  have h3: "readContract (client ?svc) ERC721ABI (resolved_address example_url) ''tokenURI''
              [ABigInt 7] = Inr (AString ''ipfs://token'')"
    by (simp add: example_defs)
  have h4: "fetch (client ?svc) (AString ''ipfs://token'')
              = Inr \<lparr>ok = True, json = Inr example_doc\<rparr>"
    by (simp add: example_defs)
  have h5: "ok \<lparr>ok = True, json = Inr example_doc\<rparr>" by simp
  have h6: "json \<lparr>ok = True, json = Inr example_doc\<rparr> = Inr example_doc" by simp
  have h7: "json_get example_doc ''name'' = Inr (JString ''Sunrise'')"
    by (simp add: example_doc_def)
  have h8: "json_truthy (JString ''Sunrise'')" by simp
  have h9: "json_get example_doc ''image'' = Inr (JString ''ipfs://image'')"
    by (simp add: example_doc_def)
  have h10: "json_truthy (JString ''ipfs://image'')" by simp
  have n: "Number 137 = Finite 137" by (simp add: Number_def Let_def)
  from owner_read_failure_not_fatal [OF h1 h2 h3 h4 h5 h6 h7 h8 h9 h10, of mintSignature
      "''0xcontract''" 137]
  show ?thesis using h1 h2 n by (simp add: example_service_def)
qed

text \<open>
  C9. For every contract address and token id, \<open>getMinterAddress\<close> resolves to the
  constant \<open>SUPER_RARE_MINTER_ADDRESS\<close>: it is never absent, never fails, and reads
  nothing from the chain, so it says nothing about whether the token can be bought.
\<close>

theorem getMinterAddress_constant:
  "getMinterAddress svc contract tokenId = (Inr (Some SUPER_RARE_MINTER_ADDRESS), [])"
  by (simp add: getMinterAddress_def io_return_def)

theorem getMinterAddress_constant_witness:
  "getMinterAddress (example_service AUndefined example_doc) ''0xcontract'' 7
     = (Inr (Some ''0x6D7c44773C52D396F43c2D511B81aa168E9a7a42''), [])"
  using getMinterAddress_constant [of "example_service AUndefined example_doc" "''0xcontract''" 7]
  by (simp add: SUPER_RARE_MINTER_ADDRESS_def)

text \<open>
  C10. For every input, \<open>getArgs\<close> returns exactly four arguments, reading nothing from
  the chain: the resolved selling contract, the token id, \<open>ZERO_ADDRESS\<close> as the
  currency, and the price it was handed, unchanged.
\<close>

theorem getArgs_four_arguments:
  "getArgs svc c t s sig p q po url
     = (Inr [AString (resolved_address url), ABigInt t, AString ZERO_ADDRESS, ABigInt p], [])
   \<and> (\<exists>args. fst (getArgs svc c t s sig p q po url) = Inr args \<and> length args = 4
         \<and> args ! 2 = AString ZERO_ADDRESS \<and> args ! 3 = ABigInt p)"
  by (simp add: getArgs_eq)

theorem getArgs_four_arguments_witness:
  "getArgs (example_service (example_sale 50) example_doc) ''0xcontract'' 7 ''0xsender''
     mintSignature 51 1 ''0xprofile'' plain_url
     = (Inr [AString ''0xb932a70a57673d89f4acffbe830e8ed7f75fb9e0'', ABigInt 7,
             AString ''0x0000000000000000000000000000000000000000'', ABigInt 51], [])"
  using getArgs_four_arguments [of "example_service (example_sale 50) example_doc"
      "''0xcontract''" 7 "''0xsender''" mintSignature 51 1 "''0xprofile''" plain_url]
  by (simp add: resolved_address_def plain_url_no_match SUPER_RARE_ADDRESS_def ZERO_ADDRESS_def)

end
